theory Spec2Isabelle
  imports Complex_Main "HOL-Library.Multiset" "HOL-Library.Word"
begin

section \<open>Errors, results and the state of the backing stores\<close>

text \<open>
  The tasks of \<^verbatim>\<open>celery_app/tasks.py\<close> raise Python exceptions and talk to three backing
  stores (the book registry in Mongo, the vector store, the object storage) and to the task
  queue. An exception is a value of \<open>pyerror\<close>; a task is a function from the state of the
  stores to an outcome and the state it leaves behind, so that what has happened when an
  exception is raised can be read off.
\<close>

datatype pyerror =
    EnvironmentError string
  | FileNotFoundError string
  | ValueError string
  | AttributeError string
  | TypeError string
  | CollaboratorError string

datatype val = Str string | Num int

type_synonym task_result = "(string \<times> val) list"

text \<open>
  A registry document. The fields \<^verbatim>\<open>id\<close> and \<^verbatim>\<open>uploaded_by\<close> are read with
  \<^verbatim>\<open>"id" not in existing_book\<close> and \<^verbatim>\<open>.get("uploaded_by", [])\<close>, so they may be absent.
\<close>

record book =
  b_oid :: nat
  b_id :: "string option"
  b_title :: string
  b_author_name :: string
  b_pages :: int
  b_status :: string
  b_uploaded_at :: nat
  b_uploaded_by :: "string list option"

datatype query = ById string | ByTitle string | ByOid nat

datatype update_op =
    SetId string
  | SetStatus string
  | AddToSetUploadedBy string
  | PullUploadedBy string

text \<open>
  The positional arguments of a call of \<^verbatim>\<open>update_one\<close>. \<open>Args2 f u\<close> is
  \<^verbatim>\<open>update_one(f, u)\<close>. \<open>Args3 f d u\<close> is \<^verbatim>\<open>update_one(f, d, u)\<close> with a second
  document \<open>d\<close> of plain fields: Python binds \<open>d\<close> to the parameter \<^verbatim>\<open>update\<close> and the
  operator document \<open>u\<close> to the parameter \<^verbatim>\<open>upsert\<close>.
\<close>

datatype update_args = Args2 query update_op | Args3 query query update_op


datatype event =
    MongoFindOne query
  | MongoUpdateOne update_args
  | MongoInsertOne string
  | MongoDeleteOne query
  | QdrantGetCollections
  | QdrantCreateCollection string
  | QdrantUpsert string nat
  | B2UploadOne string
  | EmbedBatch nat
  | Dispatch string string
  | GenerateContent string string

record point =
  p_id :: nat
  p_chunk_id :: string
  p_book_id :: string
  p_book_name :: string
  p_author_name :: string
  p_start_page :: int
  p_end_page :: int
  p_heading :: string
  p_path :: string
  p_content :: string
  p_source_pdf :: "string option"
  p_vector :: "rat list"

record world =
  books :: "book list"
  collections :: "string list"
  points :: "point list"
  files :: "(string \<times> string) list"
  jobs :: "(string \<times> string) list"
  uuid_ctr :: nat
  trace :: "event list"

type_synonym 'a task = "world \<Rightarrow> (pyerror + 'a) \<times> world"

definition ret :: "'a \<Rightarrow> 'a task" where
  "ret x w = (Inr x, w)"

definition raise :: "pyerror \<Rightarrow> 'a task" where
  "raise e w = (Inl e, w)"

definition bind :: "'a task \<Rightarrow> ('a \<Rightarrow> 'b task) \<Rightarrow> 'b task" where
  "bind m f w = (case m w of (Inl e, w') \<Rightarrow> (Inl e, w') | (Inr x, w') \<Rightarrow> f x w')"

definition log_event :: "event \<Rightarrow> unit task" where
  "log_event ev w = (Inr (), w\<lparr>trace := trace w @ [ev]\<rparr>)"

section \<open>The registry collaborator\<close>

text \<open>
  \<^verbatim>\<open>books_collection\<close> is used synchronously by the tasks (the import carries the remark
  that it is assumed to be set up correctly), so it is modelled as the synchronous
  collection of the driver: \<^verbatim>\<open>find_one\<close> returns the first matching document,
  \<^verbatim>\<open>update_one\<close> changes the first matching document, \<^verbatim>\<open>delete_one\<close> removes it. The
  driver validates the \<^verbatim>\<open>update\<close> argument before anything is sent: a document whose
  first key is not a \<^verbatim>\<open>$\<close> operator is refused with a \<^verbatim>\<open>ValueError\<close>.
\<close>

fun matches :: "query \<Rightarrow> book \<Rightarrow> bool" where
  "matches (ById i) b = (b_id b = Some i)"
| "matches (ByTitle t) b = (b_title b = t)"
| "matches (ByOid n) b = (b_oid b = n)"

fun update_first :: "('a \<Rightarrow> bool) \<Rightarrow> ('a \<Rightarrow> 'a) \<Rightarrow> 'a list \<Rightarrow> 'a list" where
  "update_first P f [] = []"
| "update_first P f (x # xs) = (if P x then f x # xs else x # update_first P f xs)"


fun apply_update :: "update_op \<Rightarrow> book \<Rightarrow> book" where
  "apply_update (SetId i) b = b\<lparr>b_id := Some i\<rparr>"
| "apply_update (SetStatus s) b = b\<lparr>b_status := s\<rparr>"
| "apply_update (AddToSetUploadedBy u) b =
     (case b_uploaded_by b of
        None \<Rightarrow> b\<lparr>b_uploaded_by := Some [u]\<rparr>
      | Some us \<Rightarrow> if u \<in> set us then b else b\<lparr>b_uploaded_by := Some (us @ [u])\<rparr>)"
| "apply_update (PullUploadedBy u) b =
     (case b_uploaded_by b of
        None \<Rightarrow> b
      | Some us \<Rightarrow> b\<lparr>b_uploaded_by := Some (filter (\<lambda>x. x \<noteq> u) us)\<rparr>)"

definition find_one :: "query \<Rightarrow> book option task" where
  "find_one q = bind (log_event (MongoFindOne q)) (\<lambda>_ w. (Inr (find (matches q) (books w)), w))"

fun update_one :: "update_args \<Rightarrow> unit task" where
  "update_one (Args2 q u) =
     bind (log_event (MongoUpdateOne (Args2 q u)))
       (\<lambda>_ w. (Inr (), w\<lparr>books := update_first (matches q) (apply_update u) (books w)\<rparr>))"
| "update_one (Args3 q d u) =
     bind (log_event (MongoUpdateOne (Args3 q d u)))
       (\<lambda>_. raise (ValueError ''update only works with $ operators''))"

definition fresh_oid :: "book list \<Rightarrow> nat" where
  "fresh_oid bs = Suc (fold max (map b_oid bs) 0)"

definition insert_one :: "book \<Rightarrow> unit task" where
  "insert_one b =
     bind (log_event (MongoInsertOne (b_title b)))
       (\<lambda>_ w. (Inr (), w\<lparr>books := books w @ [b\<lparr>b_oid := fresh_oid (books w)\<rparr>]\<rparr>))"


section \<open>The task queue\<close>




section \<open>Deleting a book\<close>




section \<open>Vector search\<close>

text \<open>
  A search result is a dictionary; the task reads only its \<^verbatim>\<open>score\<close>, which may be
  absent, \<^verbatim>\<open>None\<close> or a number. \<^verbatim>\<open>x.get('score', 0) or 0\<close> is \<open>score_key\<close>.
\<close>

datatype score_field = Missing | Null | Score rat

record hit =
  h_id :: int
  h_score :: score_field

definition get_score :: "'a hit_scheme \<Rightarrow> rat option" where
  "get_score x = (case h_score x of Missing \<Rightarrow> Some 0 | Null \<Rightarrow> None | Score s \<Rightarrow> Some s)"

definition score_key :: "'a hit_scheme \<Rightarrow> rat" where
  "score_key x = (case get_score x of None \<Rightarrow> 0 | Some s \<Rightarrow> if s = 0 then 0 else s)"

text \<open>
  \<^verbatim>\<open>list.sort(key=..., reverse=...)\<close>: a stable sort on the keys; with \<^verbatim>\<open>reverse\<close> the
  list is reversed, sorted and reversed again, which keeps equal keys in their order.
\<close>

definition list_sort :: "('a \<Rightarrow> 'k::linorder) \<Rightarrow> bool \<Rightarrow> 'a list \<Rightarrow> 'a list" where
  "list_sort key reverse xs =
     (if reverse then rev (sort_key key (rev xs)) else sort_key key xs)"

text \<open>
  \<^verbatim>\<open>search_similar_in_book\<close> comes from \<^verbatim>\<open>app.helpers\<close> and is an argument here. Both
  \<^verbatim>\<open>except\<close> clauses only print, leaving \<^verbatim>\<open>all_results = []\<close>.
\<close>

definition search_similar_in_books_task ::
  "('q \<Rightarrow> string \<Rightarrow> int \<Rightarrow> pyerror + 'a hit_scheme list) \<Rightarrow> 'q \<Rightarrow> string \<Rightarrow> int
     \<Rightarrow> 'a hit_scheme list" where
  "search_similar_in_books_task search_similar_in_book query_vec book_id top_k =
     (let all_results =
        (case search_similar_in_book query_vec book_id top_k of
           Inl e \<Rightarrow> []
         | Inr rs \<Rightarrow> rs)
      in list_sort score_key True all_results)"

definition hits_example :: "hit list" where
  "hits_example =
     [\<lparr>h_id = 1, h_score = Score (8 / 10)\<rparr>, \<lparr>h_id = 2, h_score = Null\<rparr>,
      \<lparr>h_id = 3, h_score = Score (9 / 10)\<rparr>]"

section \<open>Strings and parsed JSON\<close>

definition nl :: string where
  "nl = [CHR 0x0A]"

definition dq :: string where
  "dq = [CHR 0x22]"

definition digit_char :: "nat \<Rightarrow> char" where
  "digit_char d = ''0123456789'' ! d"

text \<open>\<^verbatim>\<open>str(n)\<close> for a natural number.\<close>

function show_nat :: "nat \<Rightarrow> string" where
  "show_nat n = (if n < 10 then [digit_char n] else show_nat (n div 10) @ [digit_char (n mod 10)])"
  by pat_completeness auto
termination
  by (relation "measure (\<lambda>n. n)") auto

text \<open>\<^verbatim>\<open>sep.join(xs)\<close>.\<close>

fun join :: "string \<Rightarrow> string list \<Rightarrow> string" where
  "join sep [] = []"
| "join sep [x] = x"
| "join sep (x # y # ys) = x @ sep @ join sep (y # ys)"

text \<open>
  \<^verbatim>\<open>str.strip()\<close> on a string of ASCII characters: the whitespace characters are the space,
  the codes 9 to 13 and the codes 28 to 31.
\<close>

definition is_space :: "char \<Rightarrow> bool" where
  "is_space c = (let n = of_char c :: nat in n = 32 \<or> (9 \<le> n \<and> n \<le> 13) \<or> (28 \<le> n \<and> n \<le> 31))"

definition strip :: "string \<Rightarrow> string" where
  "strip s = rev (dropWhile is_space (rev (dropWhile is_space s)))"

fun starts_with :: "'a list \<Rightarrow> 'a list \<Rightarrow> bool" where
  "starts_with [] ys = True"
| "starts_with (x # xs) [] = False"
| "starts_with (x # xs) (y # ys) = (x = y \<and> starts_with xs ys)"

text \<open>\<^verbatim>\<open>s in t\<close> for two strings.\<close>

fun contains :: "'a list \<Rightarrow> 'a list \<Rightarrow> bool" where
  "contains xs [] = (xs = [])"
| "contains xs (y # ys) = (starts_with xs (y # ys) \<or> contains xs ys)"

text \<open>
  What \<^verbatim>\<open>json.loads\<close> returns. An object is the list of the items of the dictionary, each
  key once.
\<close>

datatype json =
    JNull
  | JBool bool
  | JNum rat
  | JStr string
  | JArr "json list"
  | JObj "(string \<times> json) list"

text \<open>\<^verbatim>\<open>parsed.get(key, default)\<close>: only a dictionary has the method.\<close>

fun py_get :: "json \<Rightarrow> string \<Rightarrow> json \<Rightarrow> pyerror + json" where
  "py_get (JObj kvs) key dflt = Inr (case map_of kvs key of None \<Rightarrow> dflt | Some v \<Rightarrow> v)"
| "py_get _ key dflt = Inl (AttributeError ''object has no attribute get'')"

text \<open>\<^verbatim>\<open>len(v)\<close>.\<close>

fun py_len :: "json \<Rightarrow> pyerror + nat" where
  "py_len (JArr xs) = Inr (length xs)"
| "py_len (JStr s) = Inr (length s)"
| "py_len (JObj kvs) = Inr (length kvs)"
| "py_len _ = Inl (TypeError ''object has no len()'')"

text \<open>\<^verbatim>\<open>v[:3]\<close>: lists and strings are sliced, nothing else is.\<close>

fun py_slice3 :: "json \<Rightarrow> pyerror + json" where
  "py_slice3 (JArr xs) = Inr (JArr (take 3 xs))"
| "py_slice3 (JStr s) = Inr (JStr (take 3 s))"
| "py_slice3 _ = Inl (TypeError ''object is not subscriptable by a slice'')"

text \<open>
  \<^verbatim>\<open>x in v\<close> where \<open>x\<close> is \<^verbatim>\<open>c.get('id')\<close>, a string or \<^verbatim>\<open>None\<close>: membership in a list,
  substring of a string (\<^verbatim>\<open>None\<close> is refused there), key of a dictionary.
\<close>

definition id_json :: "string option \<Rightarrow> json" where
  "id_json x = (case x of None \<Rightarrow> JNull | Some s \<Rightarrow> JStr s)"

fun py_in :: "string option \<Rightarrow> json \<Rightarrow> pyerror + bool" where
  "py_in x (JArr xs) = Inr (id_json x \<in> set xs)"
| "py_in x (JStr t) =
     (case x of
        None \<Rightarrow> Inl (TypeError ''in <string> requires string as left operand'')
      | Some s \<Rightarrow> Inr (contains s t))"
| "py_in x (JObj kvs) = (case x of None \<Rightarrow> Inr False | Some s \<Rightarrow> Inr (s \<in> set (map fst kvs)))"
| "py_in x _ = Inl (TypeError ''argument is not iterable'')"

section \<open>Context selection and answer generation\<close>

text \<open>
  A candidate context is a dictionary read with \<^verbatim>\<open>.get\<close> at the keys \<^verbatim>\<open>id\<close>,
  \<^verbatim>\<open>heading\<close> and \<^verbatim>\<open>content\<close>, each a string when present.
\<close>

record candidate =
  c_id :: "string option"
  c_heading :: "string option"
  c_content :: "string option"

text \<open>
  The generation collaborator and the two library functions applied to its reply.
  \<open>generate_content\<close> answers from the calls made so far, the system text and the prompt,
  or raises; \<open>re_sub_fence\<close> is the \<^verbatim>\<open>re.sub\<close> that removes the code fence markers;
  \<open>json_loads\<close> is \<^verbatim>\<open>json.loads\<close>.
\<close>

record genai =
  generate_content :: "event list \<Rightarrow> string \<Rightarrow> string \<Rightarrow> pyerror + string"
  re_sub_fence :: "string \<Rightarrow> string"
  json_loads :: "string \<Rightarrow> pyerror + json"

definition lift :: "pyerror + 'a \<Rightarrow> 'a task" where
  "lift r w = (r, w)"

text \<open>\<^verbatim>\<open>try: m except Exception as e: h e\<close>.\<close>

definition try_except :: "'a task \<Rightarrow> (pyerror \<Rightarrow> 'a task) \<Rightarrow> 'a task" where
  "try_except m h w = (case m w of (Inl e, w') \<Rightarrow> h e w' | (Inr x, w') \<Rightarrow> (Inr x, w'))"

definition call_genai :: "genai \<Rightarrow> string \<Rightarrow> string \<Rightarrow> string task" where
  "call_genai g sys prompt w =
     (generate_content g (trace w) sys prompt, w\<lparr>trace := trace w @ [GenerateContent sys prompt]\<rparr>)"

definition context_entry :: "nat \<Rightarrow> candidate \<Rightarrow> string" where
  "context_entry i c =
     (let context_id = (case c_id c of None \<Rightarrow> ''unknown_'' @ show_nat i | Some s \<Rightarrow> s);
          heading = (case c_heading c of None \<Rightarrow> ''No heading'' | Some h \<Rightarrow> h);
          content = take 500 (case c_content c of None \<Rightarrow> [] | Some t \<Rightarrow> t)
      in ''ID: '' @ context_id @ nl @ ''Heading: '' @ heading @ nl @ ''Content: '' @ content
           @ ''...'' @ nl)"

definition contexts_text :: "candidate list \<Rightarrow> string" where
  "contexts_text contexts =
     join (nl @ ''---'' @ nl) (map (\<lambda>(i, c). context_entry i c) (enumerate 0 contexts))"

definition selection_prompt :: "candidate list \<Rightarrow> string \<Rightarrow> string" where
  "selection_prompt contexts user_query =
     nl @ ''    You are given '' @ show_nat (length contexts)
        @ '' context passages and a user query.'' @ nl
     @ ''    Select the TOP 3 most relevant context passages.'' @ nl
     @ nl
     @ ''    USER QUERY: '' @ user_query @ nl
     @ nl
     @ ''    AVAILABLE CONTEXTS:'' @ nl
     @ ''    '' @ contexts_text contexts @ nl
     @ nl
     @ ''    Respond with ONLY JSON:'' @ nl
     @ ''    {'' @ dq @ ''selected_ids'' @ dq @ '': ['' @ dq @ ''id1'' @ dq @ '', '' @ dq @ ''id2''
        @ dq @ '', '' @ dq @ ''id3'' @ dq @ '']}'' @ nl
     @ ''    ''"

definition selection_system :: string where
  "selection_system = ''You are an expert at evaluating context relevance.''"

definition fallback_ids :: "candidate list \<Rightarrow> json" where
  "fallback_ids contexts = JArr (map (\<lambda>c. id_json (c_id c)) (take 3 contexts))"

definition select_top_contexts_task :: "genai \<Rightarrow> candidate list \<Rightarrow> string \<Rightarrow> json task" where
  "select_top_contexts_task g contexts user_query =
     try_except
       (bind (call_genai g selection_system (selection_prompt contexts user_query)) (\<lambda>text.
        bind (lift (json_loads g (strip (re_sub_fence g (strip text))))) (\<lambda>parsed.
        bind (lift (py_get parsed ''selected_ids'' (JArr []))) (\<lambda>selected_ids.
        bind (lift (py_len selected_ids)) (\<lambda>n.
          if n \<ge> 3 then lift (py_slice3 selected_ids) else ret selected_ids)))))
       (\<lambda>e. ret (fallback_ids contexts))"

definition err_str :: "pyerror \<Rightarrow> string" where
  "err_str e =
     (case e of EnvironmentError m \<Rightarrow> m | FileNotFoundError m \<Rightarrow> m | ValueError m \<Rightarrow> m
      | AttributeError m \<Rightarrow> m | TypeError m \<Rightarrow> m | CollaboratorError m \<Rightarrow> m)"

definition call_model_task :: "genai \<Rightarrow> string \<Rightarrow> string \<Rightarrow> (string \<times> string) task" where
  "call_model_task g full_prompt system_prompt =
     try_except
       (bind (call_genai g system_prompt full_prompt) (\<lambda>text.
          ret (strip text,
               ''No reasoning available (Gemini API does not return reasoning steps)'')))
       (\<lambda>e. ret (''Error: '' @ err_str e, ''No reasoning available''))"

record generation =
  answer :: string
  reasoning :: string
  selected_ids :: json
  selected_contexts :: "candidate list"

text \<open>\<^verbatim>\<open>[c for c in contexts if c.get('id') in selected_ids]\<close>; a failing test ends the loop.\<close>

fun filter_selected :: "json \<Rightarrow> candidate list \<Rightarrow> pyerror + candidate list" where
  "filter_selected ids [] = Inr []"
| "filter_selected ids (c # cs) =
     (case py_in (c_id c) ids of
        Inl e \<Rightarrow> Inl e
      | Inr b \<Rightarrow>
          (case filter_selected ids cs of
             Inl e \<Rightarrow> Inl e
           | Inr r \<Rightarrow> Inr (if b then c # r else r)))"

definition answer_system :: string where
  "answer_system = ''You are a knowledgeable AI assistant. Respond in clean Markdown with headings, bullet points, and summary.''"

definition answer_prompt :: "candidate list \<Rightarrow> string \<Rightarrow> string" where
  "answer_prompt selected user_query =
     (let context_text =
        join (nl @ nl)
          (map (\<lambda>c. ''### '' @ (case c_heading c of None \<Rightarrow> [] | Some h \<Rightarrow> h) @ nl
                     @ (case c_content c of None \<Rightarrow> [] | Some t \<Rightarrow> t)) selected)
      in ''Use the following context to answer the question.'' @ nl @ nl @ context_text
           @ nl @ nl @ ''**User Question:** '' @ user_query)"

text \<open>
  \<^verbatim>\<open>process_contexts_and_generate_task\<close>. The source computes
  \<^verbatim>\<open>selection_contexts = contexts[:10]\<close> and then calls
  \<^verbatim>\<open>select_top_contexts_task(contexts, user_query)\<close>.
\<close>

definition process_contexts_and_generate_task ::
  "genai \<Rightarrow> candidate list \<Rightarrow> string \<Rightarrow> generation task" where
  "process_contexts_and_generate_task g contexts user_query =
     (let selection_contexts = take 10 contexts in
      bind (select_top_contexts_task g contexts user_query) (\<lambda>ids.
      bind (lift (filter_selected ids contexts)) (\<lambda>selected.
      bind (call_model_task g (answer_prompt selected user_query) answer_system) (\<lambda>(a, r).
        ret \<lparr>answer = a, reasoning = r, selected_ids = ids, selected_contexts = selected\<rparr>))))"

section \<open>Ingestion\<close>

text \<open>
  The parsed document gives its table of contents (entries of level, title and page) and
  its number of pages. The helpers of \<^verbatim>\<open>app.helpers\<close> and the clients behind the global
  names are not part of \<^verbatim>\<open>tasks.py\<close>; they are the fields of \<open>env\<close>. Those that read
  pages, write files or call a service may raise.
\<close>

type_synonym toc_entry = "int \<times> string \<times> int"

record document =
  d_toc :: "toc_entry list"
  d_page_count :: int

datatype toc_node = TocNode string int "string list" "toc_node list"

record leaf =
  n_title :: string
  n_page :: int
  n_path :: "string list"

record chunk =
  ch_title :: string
  ch_path :: string
  ch_start_page :: int
  ch_end_page :: int
  ch_local_path :: string
  ch_filename :: string
  ch_text :: string

record env =
  embedder_ready :: bool
  qdrant_ready :: bool
  b2_ready :: bool
  path_exists :: "string \<Rightarrow> bool"
  fitz_open :: "string \<Rightarrow> pyerror + document"
  extract_metadata :: "document \<Rightarrow> string \<times> string"
  build_toc_tree :: "toc_entry list \<Rightarrow> toc_node list"
  collect_leaf_nodes :: "toc_node list \<Rightarrow> leaf list"
  extract_text_for_node :: "document \<Rightarrow> int \<Rightarrow> int \<Rightarrow> pyerror + string"
  save_mini_pdf :: "document \<Rightarrow> int \<Rightarrow> int \<Rightarrow> string \<Rightarrow> string \<Rightarrow> pyerror + string \<times> string"
  upload_one :: "string \<Rightarrow> string \<Rightarrow> string \<times> string \<times> string \<Rightarrow> pyerror + string option"
  embed_batch :: "string list \<Rightarrow> int \<Rightarrow> pyerror + rat list list"
  uuid4 :: "nat \<Rightarrow> 128 word"
  uuid_str :: "128 word \<Rightarrow> string"
  utcnow :: nat

text \<open>\<^verbatim>\<open>uuid.uuid4()\<close>: the next identifier of the supply.\<close>

definition uuid4_next :: "env \<Rightarrow> 128 word task" where
  "uuid4_next en w = (Inr (uuid4 en (uuid_ctr w)), w\<lparr>uuid_ctr := Suc (uuid_ctr w)\<rparr>)"

subsection \<open>The vector store and the object storage\<close>

definition get_collections :: "string list task" where
  "get_collections = bind (log_event QdrantGetCollections) (\<lambda>_ w. (Inr (collections w), w))"

definition create_collection :: "string \<Rightarrow> unit task" where
  "create_collection name =
     bind (log_event (QdrantCreateCollection name))
       (\<lambda>_ w. (Inr (), w\<lparr>collections := collections w @ [name]\<rparr>))"

definition upsert :: "string \<Rightarrow> point list \<Rightarrow> unit task" where
  "upsert name ps =
     bind (log_event (QdrantUpsert name (length ps)))
       (\<lambda>_ w. (Inr (),
          w\<lparr>points := filter (\<lambda>p. p_id p \<notin> set (map p_id ps)) (points w) @ ps\<rparr>))"

definition b2_upload_one :: "env \<Rightarrow> chunk \<Rightarrow> string \<times> string \<times> string \<Rightarrow> string option task" where
  "b2_upload_one en c file_info =
     bind (log_event (B2UploadOne (ch_filename c))) (\<lambda>_.
     bind (lift (upload_one en (ch_local_path c) (ch_filename c) file_info)) (\<lambda>url w.
       (Inr url,
        case url of
          None \<Rightarrow> w
        | Some u \<Rightarrow> w\<lparr>files := files w @ [(ch_filename c, fst file_info)]\<rparr>)))"

definition embed :: "env \<Rightarrow> string list \<Rightarrow> int \<Rightarrow> rat list list task" where
  "embed en texts batch_size =
     bind (log_event (EmbedBatch (length texts))) (\<lambda>_. lift (embed_batch en texts batch_size))"

subsection \<open>The fan-out over a thread pool\<close>

text \<open>
  \<^verbatim>\<open>ThreadPoolExecutor(max_workers=workers)\<close> refuses a pool without workers.
  \<^verbatim>\<open>executor.map(f, items)\<close> hands back the results in the order of the items, and the
  iteration over them raises again the exception of the first item that failed; there is
  no \<^verbatim>\<open>try\<close> around either loop of the task. The order in which workers finish is not
  modelled: the items are taken in the order of their index.
\<close>

definition thread_pool :: "int \<Rightarrow> unit task" where
  "thread_pool workers =
     (if workers \<le> 0 then raise (ValueError ''max_workers must be greater than 0'') else ret ())"

fun executor_map :: "('a \<Rightarrow> 'b task) \<Rightarrow> 'a list \<Rightarrow> 'b list task" where
  "executor_map f [] = ret []"
| "executor_map f (x # xs) =
     bind (f x) (\<lambda>y. bind (executor_map f xs) (\<lambda>ys. ret (y # ys)))"

subsection \<open>One leaf section\<close>

text \<open>
  The pages of leaf \<open>i\<close>, as \<^verbatim>\<open>process_node\<close> computes them: from the leaf's own page up
  to, and not including, the page of the next leaf, or \<^verbatim>\<open>doc.page_count + 1\<close> for the last.
\<close>

definition page_range :: "leaf list \<Rightarrow> int \<Rightarrow> nat \<Rightarrow> int \<times> int" where
  "page_range leaf_nodes page_count i =
     (n_page (leaf_nodes ! i),
      if i + 1 < length leaf_nodes then n_page (leaf_nodes ! (i + 1)) else page_count + 1)"

definition process_node ::
  "env \<Rightarrow> document \<Rightarrow> leaf list \<Rightarrow> string \<Rightarrow> nat \<Rightarrow> pyerror + chunk option" where
  "process_node en doc leaf_nodes book_id i =
     (let node = leaf_nodes ! i;
          (start_page, end_page) = page_range leaf_nodes (d_page_count doc) i
      in case extract_text_for_node en doc start_page end_page of
           Inl e \<Rightarrow> Inl e
         | Inr text \<Rightarrow>
             if strip text = [] then Inr None
             else
               (case save_mini_pdf en doc start_page end_page ''pdfs'' book_id of
                  Inl e \<Rightarrow> Inl e
                | Inr (local_path, filename) \<Rightarrow>
                    Inr (Some \<lparr>ch_title = n_title node,
                      ch_path = join '' > '' (n_path node),
                      ch_start_page = start_page,
                      ch_end_page = end_page - 1,
                      ch_local_path = local_path,
                      ch_filename = filename,
                      ch_text = text\<rparr>)))"




subsection \<open>The task\<close>

definition truthy_url :: "string option \<Rightarrow> bool" where
  "truthy_url u = (case u of None \<Rightarrow> False | Some s \<Rightarrow> s \<noteq> [])"

fun make_points ::
  "env \<Rightarrow> string \<Rightarrow> string \<Rightarrow> string \<Rightarrow> (chunk \<times> rat list \<times> string option) list
     \<Rightarrow> point list task" where
  "make_points en book_id title author_name [] = ret []"
| "make_points en book_id title author_name ((c, v, url) # rest) =
     bind (uuid4_next en) (\<lambda>chunk_uuid.
     bind (uuid4_next en) (\<lambda>point_uuid.
     bind (make_points en book_id title author_name rest) (\<lambda>ps.
       ret (\<lparr>p_id = unat (drop_bit 64 point_uuid),
              p_chunk_id = uuid_str en chunk_uuid,
              p_book_id = book_id,
              p_book_name = title,
              p_author_name = author_name,
              p_start_page = ch_start_page c,
              p_end_page = ch_end_page c,
              p_heading = ch_title c,
              p_path = ch_path c,
              p_content = ch_text c,
              p_source_pdf = url,
              p_vector = v\<rparr> # ps))))"

text \<open>\<^verbatim>\<open>range(0, n, step)\<close> for \<open>n \<ge> 0\<close>.\<close>

definition batch_starts :: "nat \<Rightarrow> int \<Rightarrow> pyerror + nat list" where
  "batch_starts n step =
     (if step = 0 then Inl (ValueError ''range() arg 3 must not be zero'')
      else if step < 0 then Inr []
      else Inr (map (\<lambda>k. k * nat step) [0..<(n + nat step - 1) div nat step]))"

text \<open>The body of the upsert loop holds the call twice.\<close>

fun upsert_batches :: "point list \<Rightarrow> int \<Rightarrow> nat list \<Rightarrow> unit task" where
  "upsert_batches ps batch_size [] = ret ()"
| "upsert_batches ps batch_size (i # is) =
     bind (upsert ''pdf_chunks'' (take (nat batch_size) (drop i ps))) (\<lambda>_.
     bind (upsert ''pdf_chunks'' (take (nat batch_size) (drop i ps))) (\<lambda>_.
       upsert_batches ps batch_size is))"

text \<open>Step 3 of the task when a book with the title is found.\<close>

definition attach_existing ::
  "env \<Rightarrow> book \<Rightarrow> string \<Rightarrow> string \<Rightarrow> string \<Rightarrow> task_result task" where
  "attach_existing en existing_book title author_name user_id =
     bind (case b_id existing_book of
             None \<Rightarrow>
               bind (uuid4_next en) (\<lambda>u.
               bind (update_one (Args2 (ByOid (b_oid existing_book)) (SetId (uuid_str en u)))) (\<lambda>_.
                 ret (uuid_str en u)))
           | Some i \<Rightarrow> ret i) (\<lambda>book_id.
     bind (if user_id \<notin> set (case b_uploaded_by existing_book of None \<Rightarrow> [] | Some us \<Rightarrow> us)
           then update_one (Args3 (ById book_id) (ById book_id) (AddToSetUploadedBy user_id))
           else ret ()) (\<lambda>_.
       ret [(''book_id'', Str book_id), (''title'', Str title), (''author_name'', Str author_name),
            (''chunks'', Num 0), (''status'', Str ''existing'')]))"

text \<open>Steps 3 to 7 of the task when the title is new.\<close>

definition ingest_new ::
  "env \<Rightarrow> document \<Rightarrow> string \<Rightarrow> string \<Rightarrow> string \<Rightarrow> int \<Rightarrow> int \<Rightarrow> task_result task" where
  "ingest_new en doc title author_name user_id batch_size workers =
     bind (uuid4_next en) (\<lambda>u.
     let book_id = uuid_str en u in
     bind (insert_one \<lparr>b_oid = 0, b_id = Some book_id, b_title = title,
             b_author_name = author_name, b_pages = d_page_count doc,
             b_status = ''processing'', b_uploaded_at = utcnow en,
             b_uploaded_by = Some [user_id]\<rparr>) (\<lambda>_.
     let leaf_nodes = collect_leaf_nodes en (build_toc_tree en (d_toc doc)) in
     bind (thread_pool workers) (\<lambda>_.
     bind (executor_map (\<lambda>i. lift (process_node en doc leaf_nodes book_id i))
             [0..<length leaf_nodes]) (\<lambda>results.
     let pdf_chunks = concat (map (\<lambda>r. case r of None \<Rightarrow> [] | Some c \<Rightarrow> [c]) results) in
     bind (thread_pool workers) (\<lambda>_.
     bind (executor_map (\<lambda>i. b2_upload_one en (pdf_chunks ! i) (book_id, title, author_name))
             [0..<length pdf_chunks]) (\<lambda>all_urls.
     let valid_chunks = map fst (filter (\<lambda>(c, u). truthy_url u) (zip pdf_chunks all_urls));
         texts = map ch_text valid_chunks in
     bind (embed en texts batch_size) (\<lambda>vectors.
     bind (make_points en book_id title author_name
             (zip valid_chunks (zip vectors all_urls))) (\<lambda>ps.
     bind (lift (batch_starts (length ps) batch_size)) (\<lambda>starts.
     bind (upsert_batches ps batch_size starts) (\<lambda>_.
     bind (update_one (Args3 (ById book_id) (ById book_id) (SetStatus ''complete''))) (\<lambda>_.
       ret [(''book_id'', Str book_id), (''title'', Str title),
            (''author_name'', Str author_name), (''chunks'', Num (int (length ps)))])))))))))))"

text \<open>
  \<^verbatim>\<open>process_pdf_task\<close>, statement by statement: the check of the global clients, the
  check of the path, the look-up of the collections (the statement stands twice) with the
  creation of \<^verbatim>\<open>pdf_chunks\<close> when it is absent, the table of contents, the look-up of the
  title in the registry, and one of the two branches above.
\<close>

definition process_pdf_task ::
  "env \<Rightarrow> string \<Rightarrow> string \<Rightarrow> int \<Rightarrow> int \<Rightarrow> task_result task" where
  "process_pdf_task en pdf_path user_id batch_size workers =
     (if \<not> (embedder_ready en \<and> qdrant_ready en \<and> b2_ready en) then
        raise (EnvironmentError
          ''One or more global clients (Model, Qdrant, B2) are not initialized.'')
      else if \<not> path_exists en pdf_path then
        raise (FileNotFoundError (pdf_path @ '' not found.''))
      else
        bind get_collections (\<lambda>_.
        bind get_collections (\<lambda>existing.
        bind (if ''pdf_chunks'' \<notin> set existing then create_collection ''pdf_chunks''
              else ret ()) (\<lambda>_.
        bind (lift (fitz_open en pdf_path)) (\<lambda>doc.
          if d_toc doc = [] then raise (ValueError ''No Table of Contents found in PDF.'')
          else
            (case extract_metadata en doc of
               (title, author_name) \<Rightarrow>
                 bind (find_one (ByTitle title)) (\<lambda>existing_book.
                   case existing_book of
                     Some b \<Rightarrow> attach_existing en b title author_name user_id
                   | None \<Rightarrow>
                       ingest_new en doc title author_name user_id batch_size workers)))))))"

text \<open>Concrete states used to run the tasks.\<close>

definition empty_world :: world where
  "empty_world = \<lparr>books = [], collections = [''pdf_chunks''], points = [], files = [],
     jobs = [], uuid_ctr = 0, trace = []\<rparr>"

definition book1 :: "string list \<Rightarrow> book" where
  "book1 us = \<lparr>b_oid = 1, b_id = Some ''b1'', b_title = ''Algebra'', b_author_name = ''Noether'',
     b_pages = 8, b_status = ''complete'', b_uploaded_at = 0, b_uploaded_by = Some us\<rparr>"

definition world1 :: "string list \<Rightarrow> world" where
  "world1 us = empty_world\<lparr>books := [book1 us]\<rparr>"

definition cand :: "string \<Rightarrow> candidate" where
  "cand s = \<lparr>c_id = Some s, c_heading = Some ''H'', c_content = Some ''text''\<rparr>"

definition cs4 :: "candidate list" where
  "cs4 = [cand ''a'', cand ''b'', cand ''c'', cand ''d'']"

definition cs11 :: "candidate list" where
  "cs11 = [cand ''c0'', cand ''c1'', cand ''c2'', cand ''c3'', cand ''c4'', cand ''c5'',
     cand ''c6'', cand ''c7'', cand ''c8'', cand ''c9'', cand ''c10'']"

text \<open>Four collaborators: one that raises, and three that reply.\<close>

definition g_down :: genai where
  "g_down = \<lparr>generate_content = (\<lambda>_ _ _. Inl (CollaboratorError ''unavailable'')),
     re_sub_fence = (\<lambda>s. s), json_loads = (\<lambda>_. Inl (ValueError ''Expecting value''))\<rparr>"

definition g_empty_object :: genai where
  "g_empty_object = \<lparr>generate_content = (\<lambda>_ _ _. Inr ''{}''),
     re_sub_fence = (\<lambda>s. s),
     json_loads =
       (\<lambda>s. if s = ''{}'' then Inr (JObj []) else Inl (ValueError ''Expecting value''))\<rparr>"

definition g_not_json :: genai where
  "g_not_json = \<lparr>generate_content = (\<lambda>_ _ _. Inr ''I pick the first''),
     re_sub_fence = (\<lambda>s. s),
     json_loads =
       (\<lambda>s. if s = ''{}'' then Inr (JObj []) else Inl (ValueError ''Expecting value''))\<rparr>"

definition g_picks_last :: genai where
  "g_picks_last = \<lparr>generate_content = (\<lambda>_ _ _. Inr ''pick''),
     re_sub_fence = (\<lambda>s. s),
     json_loads = (\<lambda>s. Inr (JObj [(''selected_ids'', JArr [JStr ''c10''])]))\<rparr>"

definition doc1 :: document where
  "doc1 = \<lparr>d_toc = [(1, ''A'', 1), (2, ''A.1'', 2), (1, ''B'', 5)], d_page_count = 8\<rparr>"

definition leaves1 :: "leaf list" where
  "leaves1 = [\<lparr>n_title = ''A.1'', n_page = 2, n_path = [''A'', ''A.1'']\<rparr>,
     \<lparr>n_title = ''B'', n_page = 5, n_path = [''B'']\<rparr>]"

definition env1 :: env where
  "env1 = \<lparr>embedder_ready = True, qdrant_ready = True, b2_ready = True,
     path_exists = (\<lambda>p. p = ''uploads/a.pdf''),
     fitz_open = (\<lambda>p. Inr doc1),
     extract_metadata = (\<lambda>d. (''Algebra'', ''Noether'')),
     build_toc_tree =
       (\<lambda>t. [TocNode ''A'' 1 [''A''] [TocNode ''A.1'' 2 [''A'', ''A.1''] []],
             TocNode ''B'' 5 [''B''] []]),
     collect_leaf_nodes = (\<lambda>t. leaves1),
     extract_text_for_node = (\<lambda>d s e. Inr ''some text''),
     save_mini_pdf = (\<lambda>d s e dir b. Inr (''pdfs/part.pdf'', ''part.pdf'')),
     upload_one = (\<lambda>p n i. Inr (Some ''https://files/part.pdf'')),
     embed_batch = (\<lambda>ts b. Inr (map (\<lambda>t. [0]) ts)),
     uuid4 = (\<lambda>n. push_bit 64 (of_nat n)),
     uuid_str = (\<lambda>u. ''uuid-'' @ show_nat (unat (drop_bit 64 u))),
     utcnow = 0\<rparr>"

text \<open>
  \<open>env_no_clients\<close>: no client is initialised and the file is absent. \<open>env_bad_page\<close>: the
  text of the section that starts on page 2 cannot be read. \<open>env_no_toc\<close>: the document
  has no table of contents.
\<close>

definition env_no_clients :: env where
  "env_no_clients = env1\<lparr>embedder_ready := False, qdrant_ready := False, b2_ready := False,
     path_exists := (\<lambda>p. False)\<rparr>"


definition env_no_toc :: env where
  "env_no_toc = env1\<lparr>fitz_open := (\<lambda>p. Inr \<lparr>d_toc = [], d_page_count = 8\<rparr>)\<rparr>"


section \<open>Results\<close>




subsection \<open>Retrieval\<close>

lemma list_sort_descending: "sorted (rev (map key (list_sort key True xs)))"
  by (simp add: list_sort_def rev_map [symmetric])

lemma list_sort_stable:
  "filter (\<lambda>x. key x = k) (list_sort key True xs) = filter (\<lambda>x. key x = k) xs"
  by (simp add: list_sort_def rev_filter [symmetric] sort_key_stable)

lemma list_sort_Nil: "list_sort key r [] = []"
  by (simp add: list_sort_def)

lemma mset_list_sort: "mset (list_sort key True xs) = mset xs"
  by (simp add: list_sort_def)

text \<open>
  C4. Whatever the backend does, the search task returns a list: the empty list when
  the backend raises, and otherwise the backend's results rearranged so that the keys
  (the score, with an absent or null score counted as 0) descend and results with the
  same key keep the order in which they arrived. Scores 0.8, null, 0.9 for the
  identifiers 1, 2, 3 come out as 3, 1, 2.
\<close>

theorem search_sorted_stable:
  "(search q b k = Inl e \<longrightarrow> search_similar_in_books_task search q b k = [])
   \<and> (search q b k = Inr rs \<longrightarrow>
        sorted (rev (map score_key (search_similar_in_books_task search q b k)))
        \<and> mset (search_similar_in_books_task search q b k) = mset rs
        \<and> (\<forall>s. filter (\<lambda>x. score_key x = s) (search_similar_in_books_task search q b k)
                 = filter (\<lambda>x. score_key x = s) rs))
   \<and> map score_key hits_example = [8 / 10, 0, 9 / 10]
   \<and> map h_id (search_similar_in_books_task (\<lambda>_ _ _. Inr hits_example) q b k) = [3, 1, 2]"
proof -
  have ex: "map h_id (search_similar_in_books_task (\<lambda>_ _ _. Inr hits_example) q b k) = [3, 1, 2]"
    by (simp add: search_similar_in_books_task_def list_sort_def hits_example_def
        score_key_def get_score_def)
  have keys: "map score_key hits_example = [8 / 10, 0, 9 / 10]"
    by (simp add: hits_example_def score_key_def get_score_def)
  show ?thesis
    using ex keys
    by (simp add: search_similar_in_books_task_def list_sort_descending list_sort_stable
        mset_list_sort list_sort_Nil)
qed

theorem search_sorted_stable_witness:
  "search_similar_in_books_task (\<lambda>_ _ _. Inl (CollaboratorError ''timeout'')) () ''b1'' 3
      = ([] :: hit list)
   \<and> sorted (rev (map score_key
        (search_similar_in_books_task (\<lambda>_ _ _. Inr hits_example) () ''b1'' 3)))
   \<and> map h_id (search_similar_in_books_task (\<lambda>_ _ _. Inr hits_example) () ''b1'' 3) = [3, 1, 2]"
  using search_sorted_stable [of "\<lambda>_ _ _. Inl (CollaboratorError ''timeout'')" "()" "''b1''" 3
      "CollaboratorError ''timeout''" "[] :: hit list"]
    search_sorted_stable [of "\<lambda>_ _ _. Inr hits_example" "()" "''b1''" 3 undefined hits_example]
  by simp

lemmas sel_simps =
  select_top_contexts_task_def try_except_def bind_def call_genai_def lift_def ret_def

lemmas gen_simps = process_contexts_and_generate_task_def call_model_task_def sel_simps

text \<open>
  C5, as the claim states it, fails: a reply that parses to an object without the key
  \<^verbatim>\<open>selected_ids\<close> is read with the default \<^verbatim>\<open>[]\<close>, and the task returns the empty
  list, not the first three candidates.
\<close>

theorem select_missing_key_counterexample:
  "fst (select_top_contexts_task g_empty_object cs4 ''q'' empty_world) = Inr (JArr [])
   \<and> fst (select_top_contexts_task g_empty_object cs4 ''q'' empty_world)
       \<noteq> Inr (JArr [JStr ''a'', JStr ''b'', JStr ''c''])"
  by (simp add: sel_simps g_empty_object_def empty_world_def cs4_def strip_def is_space_def)

text \<open>
  C5, amended. When the call of the generation collaborator raises, or its reply does
  not parse, the task returns the identifiers of the first three candidates, in order;
  when the reply parses to an object without the key \<^verbatim>\<open>selected_ids\<close> the task returns
  the empty list; and the task never ends in an exception.
\<close>

theorem select_fallback:
  "(generate_content g (trace w) selection_system (selection_prompt cs q) = Inl e \<longrightarrow>
      fst (select_top_contexts_task g cs q w) = Inr (fallback_ids cs))
   \<and> (generate_content g (trace w) selection_system (selection_prompt cs q) = Inr t
        \<and> json_loads g (strip (re_sub_fence g (strip t))) = Inl e' \<longrightarrow>
      fst (select_top_contexts_task g cs q w) = Inr (fallback_ids cs))
   \<and> (generate_content g (trace w) selection_system (selection_prompt cs q) = Inr t
        \<and> json_loads g (strip (re_sub_fence g (strip t))) = Inr (JObj kvs)
        \<and> map_of kvs ''selected_ids'' = None \<longrightarrow>
      fst (select_top_contexts_task g cs q w) = Inr (JArr []))
   \<and> (\<exists>v. fst (select_top_contexts_task g cs q w) = Inr v)"
  by (auto simp add: sel_simps split: sum.splits prod.splits)

theorem select_fallback_witness:
  "fst (select_top_contexts_task g_down cs4 ''q'' empty_world)
     = Inr (JArr [JStr ''a'', JStr ''b'', JStr ''c''])
   \<and> fst (select_top_contexts_task g_not_json cs4 ''q'' empty_world)
     = Inr (JArr [JStr ''a'', JStr ''b'', JStr ''c''])
   \<and> fst (select_top_contexts_task g_empty_object cs4 ''q'' empty_world) = Inr (JArr [])"
  using
    select_fallback [of g_down empty_world cs4 "''q''" "CollaboratorError ''unavailable''"]
    select_fallback [of g_not_json empty_world cs4 "''q''" _ "''I pick the first''"
      "ValueError ''Expecting value''"]
    select_fallback [of g_empty_object empty_world cs4 "''q''" _ "''{}''" _ "[]"]
  by (simp add: g_down_def g_not_json_def g_empty_object_def fallback_ids_def cs4_def cand_def
      id_json_def strip_def is_space_def)

lemma selection_receives_all:
  "hd (trace (snd (process_contexts_and_generate_task g_picks_last cs11 ''q'' empty_world)))
    = GenerateContent selection_system (selection_prompt cs11 ''q'')"
  by (simp add: gen_simps g_picks_last_def empty_world_def cs11_def cand_def id_json_def
      split: prod.splits sum.splits)

lemma prompt_of_eleven:
  "selection_prompt cs11 ''q'' \<noteq> selection_prompt (take 10 cs11) ''q''"
  by (simp add: selection_prompt_def cs11_def nl_def digit_char_def)

lemma eleventh_selected:
  "fst (process_contexts_and_generate_task g_picks_last cs11 ''q'' empty_world) =
     Inr \<lparr>answer = ''pick'',
       reasoning = ''No reasoning available (Gemini API does not return reasoning steps)'',
       selected_ids = JArr [JStr ''c10''], selected_contexts = [cand ''c10'']\<rparr>"
  by (simp add: gen_simps g_picks_last_def empty_world_def cs11_def cand_def id_json_def
      strip_def is_space_def)

text \<open>
  C7 (the code departs from it). With eleven ranked candidates the first call of the
  generation collaborator carries the prompt that lists all eleven, not the prompt of the
  first ten, and the eleventh candidate can be the one selected: the truncated list
  \<^verbatim>\<open>selection_contexts\<close> is computed and never passed on.
\<close>

theorem selection_given_all_candidates:
  "hd (trace (snd (process_contexts_and_generate_task g_picks_last cs11 ''q'' empty_world)))
     = GenerateContent selection_system (selection_prompt cs11 ''q'')
   \<and> selection_prompt cs11 ''q'' \<noteq> selection_prompt (take 10 cs11) ''q''
   \<and> fst (process_contexts_and_generate_task g_picks_last cs11 ''q'' empty_world) =
       Inr \<lparr>answer = ''pick'',
         reasoning = ''No reasoning available (Gemini API does not return reasoning steps)'',
         selected_ids = JArr [JStr ''c10''], selected_contexts = [cand ''c10'']\<rparr>"
  using selection_receives_all prompt_of_eleven eleventh_selected by simp

subsection \<open>Ingestion\<close>

lemmas pdf_simps =
  process_pdf_task_def get_collections_def create_collection_def bind_def ret_def raise_def
  lift_def log_event_def find_one_def

lemmas env_simps = env1_def doc1_def leaves1_def empty_world_def world1_def book1_def



text \<open>
  C10, as the claim states it, fails: the check of the global clients comes first, so
  with a client missing the task raises \<^verbatim>\<open>EnvironmentError\<close> for a path that does not
  exist, not \<^verbatim>\<open>FileNotFoundError\<close>.
\<close>

theorem missing_file_counterexample:
  "fst (process_pdf_task env_no_clients ''uploads/missing.pdf'' ''u1'' 50 6 empty_world)
     = Inl (EnvironmentError
         ''One or more global clients (Model, Qdrant, B2) are not initialized.'')
   \<and> fst (process_pdf_task env_no_clients ''uploads/missing.pdf'' ''u1'' 50 6 empty_world)
     \<noteq> Inl (FileNotFoundError ''uploads/missing.pdf not found.'')"
  by (simp add: pdf_simps env_simps env_no_clients_def)

text \<open>
  C10, amended. For a path that does not exist the task raises before it touches any
  store: the stores and the record of calls are exactly as they were. The exception is
  \<^verbatim>\<open>FileNotFoundError\<close> when the three global clients are initialised, and
  \<^verbatim>\<open>EnvironmentError\<close> otherwise.
\<close>

theorem missing_file:
  "\<not> path_exists en pdf_path \<Longrightarrow>
   process_pdf_task en pdf_path user_id batch_size workers w =
     (Inl (if embedder_ready en \<and> qdrant_ready en \<and> b2_ready en
           then FileNotFoundError (pdf_path @ '' not found.'')
           else EnvironmentError
             ''One or more global clients (Model, Qdrant, B2) are not initialized.''), w)"
  by (simp add: process_pdf_task_def raise_def)

theorem missing_file_witness:
  "\<not> path_exists env1 ''uploads/missing.pdf''
   \<and> process_pdf_task env1 ''uploads/missing.pdf'' ''u1'' 50 6 (world1 [''u1''])
       = (Inl (FileNotFoundError ''uploads/missing.pdf not found.''), world1 [''u1''])"
  using missing_file [of env1 "''uploads/missing.pdf''" "''u1''" 50 6 "world1 [''u1'']"]
  by (simp add: env1_def)

text \<open>
  C9, as the claim states it, fails: the vector-store collection is looked up and, when
  absent, created before the table of contents is read, so a store has been written when
  the exception is raised.
\<close>

theorem no_outline_counterexample:
  "fst (process_pdf_task env_no_toc ''uploads/a.pdf'' ''u1'' 50 6
         (empty_world\<lparr>collections := []\<rparr>))
     = Inl (ValueError ''No Table of Contents found in PDF.'')
   \<and> collections (empty_world\<lparr>collections := []\<rparr>) = []
   \<and> collections (snd (process_pdf_task env_no_toc ''uploads/a.pdf'' ''u1'' 50 6
         (empty_world\<lparr>collections := []\<rparr>))) = [''pdf_chunks'']
   \<and> trace (snd (process_pdf_task env_no_toc ''uploads/a.pdf'' ''u1'' 50 6
         (empty_world\<lparr>collections := []\<rparr>)))
       = [QdrantGetCollections, QdrantGetCollections, QdrantCreateCollection ''pdf_chunks'']"
  by (simp add: pdf_simps env_simps env_no_toc_def)

text \<open>
  C9, amended. For a document whose table of contents is empty (clients initialised, file
  present and readable) the task raises \<^verbatim>\<open>ValueError\<close> with the message that no table
  of contents was found; the registry, the stored points, the object storage and the job
  queue are as they were; the only change to a store is that the collection
  \<^verbatim>\<open>pdf_chunks\<close> has been created when it did not exist.
\<close>

theorem no_outline:
  assumes "embedder_ready en" "qdrant_ready en" "b2_ready en" "path_exists en pdf_path"
    and "fitz_open en pdf_path = Inr doc" and "d_toc doc = []"
  shows "fst (process_pdf_task en pdf_path user_id batch_size workers w)
           = Inl (ValueError ''No Table of Contents found in PDF.'')
     \<and> books (snd (process_pdf_task en pdf_path user_id batch_size workers w)) = books w
     \<and> points (snd (process_pdf_task en pdf_path user_id batch_size workers w)) = points w
     \<and> files (snd (process_pdf_task en pdf_path user_id batch_size workers w)) = files w
     \<and> jobs (snd (process_pdf_task en pdf_path user_id batch_size workers w)) = jobs w
     \<and> collections (snd (process_pdf_task en pdf_path user_id batch_size workers w))
         = (if ''pdf_chunks'' \<in> set (collections w) then collections w
            else collections w @ [''pdf_chunks''])"
  using assms by (simp add: pdf_simps)

theorem no_outline_witness:
  "embedder_ready env_no_toc \<and> qdrant_ready env_no_toc \<and> b2_ready env_no_toc
   \<and> path_exists env_no_toc ''uploads/a.pdf''
   \<and> fitz_open env_no_toc ''uploads/a.pdf'' = Inr \<lparr>d_toc = [], d_page_count = 8\<rparr>
   \<and> fst (process_pdf_task env_no_toc ''uploads/a.pdf'' ''u1'' 50 6 (world1 [''u1'']))
       = Inl (ValueError ''No Table of Contents found in PDF.'')
   \<and> books (snd (process_pdf_task env_no_toc ''uploads/a.pdf'' ''u1'' 50 6 (world1 [''u1''])))
       = [book1 [''u1'']]
   \<and> collections (snd (process_pdf_task env_no_toc ''uploads/a.pdf'' ''u1'' 50 6
         (world1 [''u1'']))) = [''pdf_chunks'']"
  using no_outline [of env_no_toc "''uploads/a.pdf''" "\<lparr>d_toc = [], d_page_count = 8\<rparr>"
      "''u1''" 50 6 "world1 [''u1'']"]
  by (simp add: env_no_toc_def env_simps)







subsection \<open>Leaf sections\<close>








end
